theory Spec2Isabelle
  imports Complex_Main
begin

section \<open>Floating-point values as numpy computes with them\<close>

text \<open>
  The arrays of \<^verbatim>\<open>arsenal_gear.dist_funcs\<close> hold IEEE 754 doubles, and so do the
  attributes of a \<^verbatim>\<open>ProbDistFunc\<close>. What the class does with them (compare, subtract,
  divide) is decided by the special values as much as by the finite ones: a comparison
  with NaN is false, a division by zero does not raise but gives an infinity or NaN.
  The model keeps all of them. A finite value is a rational; \<open>Fin 0\<close> is the positive
  zero and \<open>NZero\<close> the negative one. Finite arithmetic is exact: rounding, overflow to
  an infinity and underflow to zero are not modelled.
\<close>

datatype fl = Fin rat | NZero | PInf | NInf | NaN

text \<open>The number a finite value stands for (0 for the others).\<close>

fun fval :: "fl \<Rightarrow> rat" where
  "fval (Fin q) = q"
| "fval NZero = 0"
| "fval PInf = 0"
| "fval NInf = 0"
| "fval NaN = 0"

text \<open>Position on the extended line: \<open>-inf\<close>, the finite values, \<open>+inf\<close>.\<close>

fun rank :: "fl \<Rightarrow> nat" where
  "rank NInf = 0"
| "rank PInf = 2"
| "rank (Fin q) = 1"
| "rank NZero = 1"
| "rank NaN = 1"

fun is_nan :: "fl \<Rightarrow> bool" where
  "is_nan NaN = True"
| "is_nan (Fin q) = False"
| "is_nan NZero = False"
| "is_nan PInf = False"
| "is_nan NInf = False"

fun is_zero :: "fl \<Rightarrow> bool" where
  "is_zero (Fin q) = (q = 0)"
| "is_zero NZero = True"
| "is_zero PInf = False"
| "is_zero NInf = False"
| "is_zero NaN = False"

fun is_inf :: "fl \<Rightarrow> bool" where
  "is_inf PInf = True"
| "is_inf NInf = True"
| "is_inf (Fin q) = False"
| "is_inf NZero = False"
| "is_inf NaN = False"

text \<open>Finite in numpy's sense (\<^verbatim>\<open>np.isfinite\<close>): neither an infinity nor NaN.\<close>

definition is_finite :: "fl \<Rightarrow> bool" where
  "is_finite v = (\<not> is_inf v \<and> \<not> is_nan v)"

text \<open>The sign bit.\<close>

fun sign_bit :: "fl \<Rightarrow> bool" where
  "sign_bit (Fin q) = (q < 0)"
| "sign_bit NZero = True"
| "sign_bit PInf = False"
| "sign_bit NInf = True"
| "sign_bit NaN = False"

text \<open>\<^verbatim>\<open>a < b\<close>, \<^verbatim>\<open>a > b\<close> and \<^verbatim>\<open>a == b\<close>: false as soon as one side is NaN; the two zeros are equal.\<close>

definition flt :: "fl \<Rightarrow> fl \<Rightarrow> bool" where
  "flt a b =
     (if is_nan a then False
      else if is_nan b then False
      else if rank a = rank b then fval a < fval b
      else rank a < rank b)"

definition fgt :: "fl \<Rightarrow> fl \<Rightarrow> bool" where
  "fgt a b = flt b a"

definition feq :: "fl \<Rightarrow> fl \<Rightarrow> bool" where
  "feq a b =
     (if is_nan a then False
      else if is_nan b then False
      else rank a = rank b \<and> fval a = fval b)"

text \<open>
  \<^verbatim>\<open>a - b\<close>. Infinities of the same sign cancel to NaN. A zero difference is the positive
  zero, except \<open>(-0) - (+0)\<close>, which is the negative one.
\<close>

definition fsub :: "fl \<Rightarrow> fl \<Rightarrow> fl" where
  "fsub a b =
     (if is_nan a \<or> is_nan b then NaN
      else if is_inf a then (if a = b then NaN else a)
      else if is_inf b then (if b = PInf then NInf else PInf)
      else if a = NZero \<and> b = Fin 0 then NZero
      else Fin (fval a - fval b))"

text \<open>
  \<^verbatim>\<open>a / b\<close> as numpy divides: \<open>0/0\<close> and \<open>inf/inf\<close> are NaN, a non-zero value over a zero
  is an infinity, a finite value over an infinity is a zero, and the sign of the result
  is the product of the signs. Nothing is raised.
\<close>

definition fdiv :: "fl \<Rightarrow> fl \<Rightarrow> fl" where
  "fdiv a b =
     (if is_nan a \<or> is_nan b then NaN
      else if is_zero a \<and> is_zero b then NaN
      else if is_inf a \<and> is_inf b then NaN
      else if is_inf a \<or> is_zero b then (if sign_bit a = sign_bit b then PInf else NInf)
      else if is_zero a \<or> is_inf b then (if sign_bit a = sign_bit b then Fin 0 else NZero)
      else Fin (fval a / fval b))"

section \<open>The class ProbDistFunc\<close>

text \<open>
  An instance has the attributes \<^verbatim>\<open>min\<close>, \<^verbatim>\<open>max\<close> and \<^verbatim>\<open>norm\<close>. The constructor sets
  the first two, and the third from them: \<open>bounds\<close> is the object after the first two
  assignments, which is what \<^verbatim>\<open>normalization\<close> reads.
\<close>

record bounds =
  self_min :: fl
  self_max :: fl

record ProbDistFunc = bounds +
  self_norm :: fl

text \<open>\<^verbatim>\<open>return self.max - self.min\<close>\<close>

definition normalization :: "'a bounds_scheme \<Rightarrow> fl" where
  "normalization self = fsub (self_max self) (self_min self)"

text \<open>\<^verbatim>\<open>__init__(self, pdf_min, pdf_max, normalized=False)\<close>\<close>

definition init :: "fl \<Rightarrow> fl \<Rightarrow> bool \<Rightarrow> ProbDistFunc" where
  "init pdf_min pdf_max normalized =
     (let self = \<lparr>self_min = pdf_min, self_max = pdf_max\<rparr>
      in if normalized
         then bounds.extend self (ProbDistFunc.fields (normalization self))
         else bounds.extend self (ProbDistFunc.fields (Fin 1)))"

text \<open>Assignments to the attributes of an instance after its construction.\<close>

definition set_min :: "fl \<Rightarrow> ProbDistFunc \<Rightarrow> ProbDistFunc" where
  "set_min v self = self\<lparr>self_min := v\<rparr>"

definition set_max :: "fl \<Rightarrow> ProbDistFunc \<Rightarrow> ProbDistFunc" where
  "set_max v self = self\<lparr>self_max := v\<rparr>"

subsection \<open>Arrays and the program state\<close>

text \<open>
  \<^verbatim>\<open>__call__\<close> assigns into the array that \<^verbatim>\<open>prob\<close> returns, so arrays are objects
  with an identity: the state holds every array allocated so far, an array's address is
  its position there, and a new array goes to the end. The state also holds the
  instance, so that what a call does to its attributes can be read off the state it
  returns. Arrays are one-dimensional; every operation below is elementwise.
\<close>

type_synonym addr = nat

record state =
  this :: ProbDistFunc
  arrays :: "fl list list"

datatype error =
    IndexError   \<comment> \<open>the boolean index does not have the shape of the indexed array\<close>
  | NoArray      \<comment> \<open>an address that holds no array: no Python reference is one\<close>

definition array_at :: "state \<Rightarrow> addr \<Rightarrow> fl list option" where
  "array_at st a = (if a < length (arrays st) then Some (arrays st ! a) else None)"

definition alloc :: "fl list \<Rightarrow> state \<Rightarrow> addr \<times> state" where
  "alloc v st = (length (arrays st), st\<lparr>arrays := arrays st @ [v]\<rparr>)"

text \<open>\<^verbatim>\<open>np.ones(shape)\<close>: a new array of ones.\<close>

definition np_ones :: "nat \<Rightarrow> state \<Rightarrow> addr \<times> state" where
  "np_ones n st = alloc (replicate n (Fin 1)) st"

text \<open>\<^verbatim>\<open>prob(self, x)\<close> of the base class: \<^verbatim>\<open>return np.ones(x.shape)\<close>\<close>

definition prob :: "addr \<Rightarrow> state \<Rightarrow> error + addr \<times> state" where
  "prob x st =
     (case array_at st x of
        None \<Rightarrow> Inl NoArray
      | Some xs \<Rightarrow> Inr (np_ones (length xs) st))"

text \<open>
  A subclass overrides \<^verbatim>\<open>prob\<close> with a formula of its own. \<open>prob_of dens\<close> is such an
  override: it computes the values \<open>dens self xs\<close> from the instance and the values of
  \<open>x\<close> and returns them in a new array, as a numpy expression does.
\<close>

definition prob_of :: "(ProbDistFunc \<Rightarrow> fl list \<Rightarrow> fl list) \<Rightarrow> addr \<Rightarrow> state \<Rightarrow> error + addr \<times> state" where
  "prob_of dens x st =
     (case array_at st x of
        None \<Rightarrow> Inl NoArray
      | Some xs \<Rightarrow> Inr (alloc (dens (this st) xs) st))"

text \<open>\<^verbatim>\<open>np.logical_or(x < self.min, x > self.max)\<close>, at one element.\<close>

definition outside :: "ProbDistFunc \<Rightarrow> fl \<Rightarrow> bool" where
  "outside self v = (flt v (self_min self) \<or> fgt v (self_max self))"

text \<open>
  \<^verbatim>\<open>p[mask] = c\<close> on the values of \<open>p\<close>: the elements at the positions where the mask is
  true become \<open>c\<close>, the others stay. An empty mask has no such position and assigns
  nothing, whatever the length of \<open>p\<close>.
\<close>

fun mask_assign :: "fl list \<Rightarrow> bool list \<Rightarrow> fl \<Rightarrow> fl list" where
  "mask_assign ps [] c = ps"
| "mask_assign [] (b # m) c = []"
| "mask_assign (v # ps) (b # m) c = (if b then c else v) # mask_assign ps m c"

text \<open>
  \<^verbatim>\<open>__call__(self, x)\<close>, with the method \<^verbatim>\<open>prob\<close> that the instance's class has:
  \<^verbatim>\<open>
  p = self.prob(x)
  p[np.logical_or(x < self.min, x > self.max)] = 0
  return p/self.norm
  \<close>
  The mask is computed from \<open>x\<close> as it is after \<^verbatim>\<open>prob\<close> returned, the assignment
  changes the array \<open>p\<close> in place, and the division allocates the array returned.
  numpy compares the length of a boolean index with the length of the indexed array
  only when the index is not empty: a mask of another length raises IndexError, except
  the empty mask, which assigns nothing.
\<close>

definition call_with ::
    "(addr \<Rightarrow> state \<Rightarrow> error + addr \<times> state) \<Rightarrow> addr \<Rightarrow> state \<Rightarrow> error + addr \<times> state" where
  "call_with prob_method x st =
     (case prob_method x st of
        Inl e \<Rightarrow> Inl e
      | Inr (p, st1) \<Rightarrow>
          (case array_at st1 x of
             None \<Rightarrow> Inl NoArray
           | Some xs \<Rightarrow>
               (case array_at st1 p of
                  None \<Rightarrow> Inl NoArray
                | Some ps \<Rightarrow>
                    let m = map (outside (this st1)) xs
                    in if 0 < length m \<and> length m \<noteq> length ps then Inl IndexError
                       else
                         let st2 = st1\<lparr>arrays := (arrays st1)[p := mask_assign ps m (Fin 0)]\<rparr>
                         in Inr (alloc (map (\<lambda>v. fdiv v (self_norm (this st2))) (arrays st2 ! p)) st2))))"

text \<open>
  \<^verbatim>\<open>__call__\<close> of the base class. It is the one evaluation method of the class:
  \<^verbatim>\<open>pdf(x)\<close> and \<^verbatim>\<open>pdf.__call__(x)\<close> both run it.
\<close>

definition call :: "addr \<Rightarrow> state \<Rightarrow> error + addr \<times> state" where
  "call x st = call_with prob x st"

subsection \<open>Reading results\<close>

text \<open>The values of the array a method returned, if it returned one.\<close>

definition returned :: "error + addr \<times> state \<Rightarrow> fl list option" where
  "returned res = (case res of Inl e \<Rightarrow> None | Inr (a, st) \<Rightarrow> array_at st a)"

text \<open>The values that the base class's \<^verbatim>\<open>prob\<close> puts into its new array.\<close>

definition ones :: "ProbDistFunc \<Rightarrow> fl list \<Rightarrow> fl list" where
  "ones self xs = replicate (length xs) (Fin 1)"

section \<open>Facts about the arithmetic\<close>

lemmas model_defs =
  call_def call_with_def prob_def prob_of_def np_ones_def alloc_def array_at_def
  init_def normalization_def bounds.extend_def ProbDistFunc.fields_def
  outside_def flt_def fgt_def feq_def fsub_def fdiv_def Let_def

lemma fdiv_zero_num:
  assumes "\<not> is_zero b" and "\<not> is_nan b"
  shows "fdiv (Fin 0) b = (if sign_bit b then NZero else Fin 0)"
  using assms by (cases b) (simp_all add: fdiv_def)

lemma is_zero_feq: "is_zero v \<Longrightarrow> feq v (Fin 0)"
  by (cases v) (simp_all add: feq_def)

lemma inverted_norm:
  assumes "flt b a"
  shows "\<not> is_zero (fsub b a)" and "\<not> is_nan (fsub b a)"
  using assms by (cases a; cases b; simp add: flt_def fsub_def split: if_splits)+

lemma inverted_outside:
  assumes "flt b a" and "\<not> is_nan v"
  shows "flt v a \<or> flt b v"
  using assms by (cases a; cases b; cases v; simp add: flt_def split: if_splits; linarith)

lemma ordered_inside:
  assumes "\<not> flt mx mn" and "feq v mn \<or> feq v mx"
  shows "\<not> flt v mn \<and> \<not> flt mx v"
  using assms by (cases mx; cases mn; cases v; simp add: flt_def feq_def split: if_splits; linarith)

lemma zero_norm_not_finite:
  assumes "is_zero n"
  shows "\<not> is_finite (fdiv (Fin 1) n)" and "\<not> is_finite (fdiv (Fin 0) n)"
  using assms by (cases n; simp add: fdiv_def is_finite_def)+

section \<open>What a call computes\<close>

text \<open>The base class is the class whose \<^verbatim>\<open>prob\<close> gives ones.\<close>

lemma prob_eq: "prob = prob_of ones"
  by (rule ext, rule ext) (simp add: prob_def prob_of_def np_ones_def ones_def split: option.splits)

lemma call_eq: "call = call_with (prob_of ones)"
  by (rule ext, rule ext) (simp add: call_def prob_eq)

lemma mask_assign_length: "length (mask_assign ps m c) = length ps"
  by (induction ps m c rule: mask_assign.induct) simp_all

lemma mask_assign_nth_mask:
  assumes "length ps = length m" and "i < length ps"
  shows "mask_assign ps m c ! i = (if m ! i then c else ps ! i)"
  using assms
  by (induction ps m c arbitrary: i rule: mask_assign.induct) (auto simp: nth_Cons split: nat.splits)

lemma mask_assign_nth:
  assumes "i < length xs" and "length ps = length xs"
  shows "mask_assign ps (map f xs) c ! i = (if f (xs ! i) then c else ps ! i)"
  using assms by (simp add: mask_assign_nth_mask)

text \<open>
  On an array of the state, a call allocates two arrays: the one \<^verbatim>\<open>prob\<close> returns, with
  the mask written into it, and the quotient it returns itself. It raises when \<open>x\<close> is
  not empty and \<^verbatim>\<open>prob\<close> returned an array of another length than \<open>x\<close>.
\<close>

lemma call_with_prob_of:
  assumes "x < length (arrays st)"
  shows "call_with (prob_of dens) x st =
     (let xs = arrays st ! x; ps = dens (this st) xs
      in if 0 < length xs \<and> length xs \<noteq> length ps then Inl IndexError
         else let q = mask_assign ps (map (outside (this st)) xs) (Fin 0)
              in Inr (Suc (length (arrays st)),
                      st\<lparr>arrays := arrays st @ [q, map (\<lambda>v. fdiv v (self_norm (this st))) q]\<rparr>))"
  using assms
  by (simp add: call_with_def prob_of_def alloc_def array_at_def Let_def nth_append)

lemma call_with_prob_of_none:
  assumes "\<not> x < length (arrays st)"
  shows "call_with (prob_of dens) x st = Inl NoArray"
  using assms by (simp add: call_with_def prob_of_def array_at_def)

lemma call_with_prob_of_Inr:
  assumes "call_with (prob_of dens) x st = Inr (r, st')"
  shows "x < length (arrays st)"
    and "0 < length (arrays st ! x) \<longrightarrow>
           length (dens (this st) (arrays st ! x)) = length (arrays st ! x)"
    and "r = Suc (length (arrays st))"
    and "this st' = this st"
    and "arrays st' =
           arrays st @
           [mask_assign (dens (this st) (arrays st ! x)) (map (outside (this st)) (arrays st ! x)) (Fin 0),
            map (\<lambda>v. fdiv v (self_norm (this st)))
              (mask_assign (dens (this st) (arrays st ! x)) (map (outside (this st)) (arrays st ! x)) (Fin 0))]"
proof -
  show valid: "x < length (arrays st)"
    using assms call_with_prob_of_none [of x st dens] by (cases "x < length (arrays st)") simp_all
  from assms show "0 < length (arrays st ! x) \<longrightarrow>
           length (dens (this st) (arrays st ! x)) = length (arrays st ! x)"
    and "r = Suc (length (arrays st))"
    and "this st' = this st"
    and "arrays st' =
           arrays st @
           [mask_assign (dens (this st) (arrays st ! x)) (map (outside (this st)) (arrays st ! x)) (Fin 0),
            map (\<lambda>v. fdiv v (self_norm (this st)))
              (mask_assign (dens (this st) (arrays st ! x)) (map (outside (this st)) (arrays st ! x)) (Fin 0))]"
    by (auto simp: call_with_prob_of [OF valid] Let_def split: if_splits)
qed

lemma call_with_prob_of_returns:
  assumes "x < length (arrays st)"
    and "length (dens (this st) (arrays st ! x)) = length (arrays st ! x)"
  shows "\<exists>r st'. call_with (prob_of dens) x st = Inr (r, st')"
  using assms by (simp add: call_with_prob_of Let_def)

lemma call_result:
  assumes "call_with (prob_of dens) x st = Inr (r, st')"
  shows "arrays st' ! r =
           map (\<lambda>v. fdiv v (self_norm (this st)))
             (mask_assign (dens (this st) (arrays st ! x)) (map (outside (this st)) (arrays st ! x)) (Fin 0))"
  using call_with_prob_of_Inr(3,5) [OF assms] by (simp add: nth_append)

text \<open>The array returned has the length of the array \<^verbatim>\<open>prob\<close> returned.\<close>

lemma call_result_length:
  assumes "call_with (prob_of dens) x st = Inr (r, st')"
  shows "length (arrays st' ! r) = length (dens (this st) (arrays st ! x))"
  by (simp add: call_result [OF assms] mask_assign_length)

lemma call_result_nth:
  assumes "call_with (prob_of dens) x st = Inr (r, st')" and "i < length (arrays st ! x)"
  shows "arrays st' ! r ! i =
           fdiv (if outside (this st) (arrays st ! x ! i) then Fin 0
                 else dens (this st) (arrays st ! x) ! i) (self_norm (this st))"
proof -
  have "length (dens (this st) (arrays st ! x)) = length (arrays st ! x)"
    using call_with_prob_of_Inr(2) [OF assms(1)] assms(2) by auto
  then show ?thesis
    using assms(2) by (simp add: call_result [OF assms(1)] mask_assign_length mask_assign_nth)
qed

text \<open>
  The empty input with a \<^verbatim>\<open>prob\<close> that returns one value all the same: the empty mask
  assigns nothing and the call returns that value over the constant.
\<close>

lemma empty_mask_example:
  "call_with (prob_of (\<lambda>self xs. [Fin 7])) 0 \<lparr>this = init (Fin 0) (Fin 2) True, arrays = [[]]\<rparr> =
     Inr (2, \<lparr>this = init (Fin 0) (Fin 2) True, arrays = [[], [Fin 7], [Fin (7/2)]]\<rparr>)"
  by (simp add: model_defs)

lemma nonempty_mask_mismatch_example:
  "call_with (prob_of (\<lambda>self xs. [Fin 7])) 0 \<lparr>this = init (Fin 0) (Fin 2) True, arrays = [[Fin 1, Fin 1]]\<rparr> =
     Inl IndexError"
  by (simp add: model_defs)

text \<open>The attributes after construction, and the ones of the base class.\<close>

lemma init_attrs:
  "self_min (init a b n) = a"
  "self_max (init a b n) = b"
  "self_norm (init a b n) = (if n then fsub b a else Fin 1)"
  by (simp_all add: init_def normalization_def bounds.extend_def ProbDistFunc.fields_def Let_def)

lemma ones_length: "length (ones self xs) = length xs"
  by (simp add: ones_def)

lemma ones_nth: "i < length xs \<Longrightarrow> ones self xs ! i = Fin 1"
  by (simp add: ones_def)

lemma masked_ones_values:
  assumes "w \<in> set (mask_assign (ones self xs) m (Fin 0))"
  shows "w = Fin 0 \<or> w = Fin 1"
proof -
  have sub: "set (mask_assign ps m (Fin 0)) \<subseteq> insert (Fin 0) (set ps)" for ps
    by (induction ps m "Fin 0" rule: mask_assign.induct) auto
  from sub [of "ones self xs"] assms have "w \<in> insert (Fin 0) (set (ones self xs))"
    by blast
  then show ?thesis by (auto simp: ones_def split: if_splits)
qed

text \<open>The call of the base class, on an array of the state.\<close>

lemma call_base_result:
  assumes "x < length (arrays st)"
  shows "call x st =
           Inr (Suc (length (arrays st)),
                st\<lparr>arrays := arrays st @
                  [mask_assign (ones (this st) (arrays st ! x)) (map (outside (this st)) (arrays st ! x)) (Fin 0),
                   map (\<lambda>v. fdiv v (self_norm (this st)))
                     (mask_assign (ones (this st) (arrays st ! x)) (map (outside (this st)) (arrays st ! x)) (Fin 0))]\<rparr>)"
  using assms by (simp add: call_eq call_with_prob_of Let_def ones_length)

section \<open>The claims\<close>

subsection \<open>C1: values outside the bounds\<close>

text \<open>
  C1, as stated: for every instance and every input array, each element of the result
  of \<^verbatim>\<open>__call__\<close> whose input is strictly below \<^verbatim>\<open>self.min\<close> or strictly above
  \<^verbatim>\<open>self.max\<close> is exactly 0. It fails where the stored constant is zero:
  \<^verbatim>\<open>ProbDistFunc(1, 1, True)\<close> has \<^verbatim>\<open>norm = 0\<close>, the element 2 of \<open>x\<close> is above the
  maximum, the mask sets it to 0 and the division makes \<open>0/0\<close> of it, which is NaN.
\<close>

theorem call_outside_nan_counterexample:
  "outside (init (Fin 1) (Fin 1) True) (Fin 2) \<and>
   call 0 \<lparr>this = init (Fin 1) (Fin 1) True, arrays = [[Fin 2]]\<rparr> =
     Inr (2, \<lparr>this = init (Fin 1) (Fin 1) True, arrays = [[Fin 2], [Fin 0], [NaN]]\<rparr>) \<and>
   \<not> feq NaN (Fin 0)"
  by (simp add: model_defs)

text \<open>
  C1, amended: for every instance whose stored normalization constant is neither zero
  nor NaN, whatever its class's \<^verbatim>\<open>prob\<close> returns, and every input array, each element
  of the result whose input is strictly below \<^verbatim>\<open>self.min\<close> or strictly above
  \<^verbatim>\<open>self.max\<close> is zero: it compares equal to 0, and it is the zero \<open>0/norm\<close>, the
  negative one when the constant is negative.
\<close>

theorem call_outside_zero:
  assumes "call_with (prob_of dens) x st = Inr (r, st')"
    and "i < length (arrays st ! x)"
    and "outside (this st) (arrays st ! x ! i)"
    and "\<not> is_zero (self_norm (this st))"
    and "\<not> is_nan (self_norm (this st))"
  shows "feq (arrays st' ! r ! i) (Fin 0) \<and>
         arrays st' ! r ! i = (if sign_bit (self_norm (this st)) then NZero else Fin 0)"
proof -
  have "arrays st' ! r ! i = fdiv (Fin 0) (self_norm (this st))"
    using call_result_nth [OF assms(1,2)] assms(3) by simp
  then have v: "arrays st' ! r ! i = (if sign_bit (self_norm (this st)) then NZero else Fin 0)"
    by (simp add: fdiv_zero_num [OF assms(4,5)])
  then have "is_zero (arrays st' ! r ! i)" by simp
  then show ?thesis using v is_zero_feq by blast
qed

text \<open>
  The witness: a class whose \<^verbatim>\<open>prob\<close> is 7 everywhere, bounds 0 and 2, normalized;
  the element 2.5 is above the maximum.
\<close>

theorem call_outside_zero_witness:
  "call_with (prob_of (\<lambda>self xs. map (\<lambda>v. Fin 7) xs)) 0
      \<lparr>this = init (Fin 0) (Fin 2) True, arrays = [[Fin (1/2), Fin (5/2), Fin (-1)]]\<rparr> =
     Inr (2, \<lparr>this = init (Fin 0) (Fin 2) True,
              arrays = [[Fin (1/2), Fin (5/2), Fin (-1)], [Fin 7, Fin 0, Fin 0], [Fin (7/2), Fin 0, Fin 0]]\<rparr>) \<and>
   outside (init (Fin 0) (Fin 2) True) (Fin (5/2)) \<and>
   feq ([Fin (7/2), Fin 0, Fin 0] ! 1) (Fin 0)"
proof -
  let ?st = "\<lparr>this = init (Fin 0) (Fin 2) True, arrays = [[Fin (1/2), Fin (5/2), Fin (-1)]]\<rparr>"
  let ?st' = "\<lparr>this = init (Fin 0) (Fin 2) True,
              arrays = [[Fin (1/2), Fin (5/2), Fin (-1)], [Fin 7, Fin 0, Fin 0], [Fin (7/2), Fin 0, Fin 0]]\<rparr>"
  have c: "call_with (prob_of (\<lambda>self xs. map (\<lambda>v. Fin 7) xs)) 0 ?st = Inr (2, ?st')"
    by (simp add: model_defs)
  have i: "1 < length (arrays ?st ! 0)" by simp
  have out: "outside (this ?st) (arrays ?st ! 0 ! 1)" by (simp add: model_defs)
  have nz: "\<not> is_zero (self_norm (this ?st))" by (simp add: model_defs)
  have nn: "\<not> is_nan (self_norm (this ?st))" by (simp add: model_defs)
  from call_outside_zero [OF c i out nz nn] c out show ?thesis by simp
qed

subsection \<open>C2: the normalized uniform distribution on 0..2\<close>

text \<open>
  C2: \<^verbatim>\<open>ProbDistFunc(0, 2, True)\<close> stores the constant \<open>max - min = 2\<close>, and its call on
  \<^verbatim>\<open>[0.5, 1.0, 1.5, 2.5]\<close> returns \<^verbatim>\<open>[0.5, 0.5, 0.5, 0.0]\<close>. The state after the call
  holds \<open>x\<close> as it was, the array of \<^verbatim>\<open>prob\<close> with the last element masked, and the
  array returned.
\<close>

theorem uniform_normalized_example:
  "self_norm (init (Fin 0) (Fin 2) True) = Fin 2 \<and>
   self_norm (init (Fin 0) (Fin 2) True) = fsub (Fin 2) (Fin 0) \<and>
   call 0 \<lparr>this = init (Fin 0) (Fin 2) True, arrays = [[Fin (1/2), Fin 1, Fin (3/2), Fin (5/2)]]\<rparr> =
     Inr (2, \<lparr>this = init (Fin 0) (Fin 2) True,
              arrays = [[Fin (1/2), Fin 1, Fin (3/2), Fin (5/2)],
                        [Fin 1, Fin 1, Fin 1, Fin 0],
                        [Fin (1/2), Fin (1/2), Fin (1/2), Fin 0]]\<rparr>)"
  by (simp add: model_defs)

subsection \<open>C7: the same distribution, not normalized\<close>

text \<open>
  C7: \<^verbatim>\<open>ProbDistFunc(0, 2)\<close>, with \<^verbatim>\<open>normalized\<close> left at \<^verbatim>\<open>False\<close>, stores the constant
  1, and its call on \<^verbatim>\<open>[0.5, 1.0, 1.5, 2.5]\<close> returns \<^verbatim>\<open>[1, 1, 1, 0]\<close>: the mask only.
\<close>

theorem uniform_unnormalized_example:
  "self_norm (init (Fin 0) (Fin 2) False) = Fin 1 \<and>
   call 0 \<lparr>this = init (Fin 0) (Fin 2) False, arrays = [[Fin (1/2), Fin 1, Fin (3/2), Fin (5/2)]]\<rparr> =
     Inr (2, \<lparr>this = init (Fin 0) (Fin 2) False,
              arrays = [[Fin (1/2), Fin 1, Fin (3/2), Fin (5/2)],
                        [Fin 1, Fin 1, Fin 1, Fin 0],
                        [Fin 1, Fin 1, Fin 1, Fin 0]]\<rparr>)"
  by (simp add: model_defs)

subsection \<open>C4: inverted bounds\<close>

text \<open>
  C4, as stated: an instance constructed with \<^verbatim>\<open>pdf_min > pdf_max\<close> returns 0 at every
  element of every input array. The mask is \<^verbatim>\<open>x < self.min\<close> or \<^verbatim>\<open>x > self.max\<close>, and
  both comparisons are false at NaN: \<^verbatim>\<open>ProbDistFunc(2, 1)\<close> called on \<^verbatim>\<open>[nan]\<close> leaves the
  1 of \<^verbatim>\<open>prob\<close> in place and returns \<^verbatim>\<open>[1.]\<close>.
\<close>

theorem inverted_nan_counterexample:
  "fgt (Fin 2) (Fin 1) \<and>
   call 0 \<lparr>this = init (Fin 2) (Fin 1) False, arrays = [[NaN]]\<rparr> =
     Inr (2, \<lparr>this = init (Fin 2) (Fin 1) False, arrays = [[NaN], [Fin 1], [Fin 1]]\<rparr>) \<and>
   \<not> feq (Fin 1) (Fin 0)"
  by (simp add: model_defs)

text \<open>
  C4, amended: on an instance constructed with \<^verbatim>\<open>pdf_min > pdf_max\<close>, normalized or
  not, the call of the base class raises nothing, and the result of a call, whatever
  \<^verbatim>\<open>prob\<close> returns, is zero at every element whose input is not NaN.
\<close>

theorem inverted_bounds_zero:
  assumes "fgt pdf_min pdf_max"
    and "this st = init pdf_min pdf_max normalized"
    and "x < length (arrays st)"
  shows "(\<exists>r st'. call x st = Inr (r, st')) \<and>
         (\<forall>dens r st' i.
            call_with (prob_of dens) x st = Inr (r, st') \<longrightarrow>
            i < length (arrays st ! x) \<longrightarrow>
            \<not> is_nan (arrays st ! x ! i) \<longrightarrow>
            feq (arrays st' ! r ! i) (Fin 0))"
proof -
  have inv: "flt pdf_max pdf_min" using assms(1) by (simp add: fgt_def)
  have nz: "\<not> is_zero (self_norm (this st))" and nn: "\<not> is_nan (self_norm (this st))"
    using inverted_norm [OF inv] by (simp_all add: assms(2) init_attrs)
  have "feq (arrays st' ! r ! i) (Fin 0)"
    if c: "call_with (prob_of dens) x st = Inr (r, st')"
      and i: "i < length (arrays st ! x)" and v: "\<not> is_nan (arrays st ! x ! i)"
    for dens r st' i
  proof -
    have "outside (this st) (arrays st ! x ! i)"
      using inverted_outside [OF inv v] by (simp add: outside_def fgt_def assms(2) init_attrs)
    then have "arrays st' ! r ! i = fdiv (Fin 0) (self_norm (this st))"
      using call_result_nth [OF c i] by simp
    then have "is_zero (arrays st' ! r ! i)"
      by (simp add: fdiv_zero_num [OF nz nn])
    then show ?thesis by (rule is_zero_feq)
  qed
  moreover have "\<exists>r st'. call x st = Inr (r, st')"
    using call_with_prob_of_returns [OF assms(3), of ones] by (simp add: ones_length call_eq)
  ultimately show ?thesis by blast
qed

text \<open>
  The witness: bounds 2 and 1, normalized (the constant is -1), and three numbers; the
  zeros returned are negative zeros.
\<close>

theorem inverted_bounds_zero_witness:
  "fgt (Fin 2) (Fin 1) \<and>
   call 0 \<lparr>this = init (Fin 2) (Fin 1) True, arrays = [[Fin 2, Fin (3/2), NInf]]\<rparr> =
     Inr (2, \<lparr>this = init (Fin 2) (Fin 1) True,
              arrays = [[Fin 2, Fin (3/2), NInf], [Fin 0, Fin 0, Fin 0], [NZero, NZero, NZero]]\<rparr>) \<and>
   feq ([NZero, NZero, NZero] ! 1) (Fin 0)"
proof -
  let ?st = "\<lparr>this = init (Fin 2) (Fin 1) True, arrays = [[Fin 2, Fin (3/2), NInf]]\<rparr>"
  let ?st' = "\<lparr>this = init (Fin 2) (Fin 1) True,
              arrays = [[Fin 2, Fin (3/2), NInf], [Fin 0, Fin 0, Fin 0], [NZero, NZero, NZero]]\<rparr>"
  have a: "fgt (Fin 2) (Fin 1)" by (simp add: fgt_def flt_def)
  have b: "this ?st = init (Fin 2) (Fin 1) True" by simp
  have c: "0 < length (arrays ?st)" by simp
  have e: "call_with (prob_of ones) 0 ?st = Inr (2, ?st')" by (simp add: model_defs ones_def)
  have i: "1 < length (arrays ?st ! 0)" and v: "\<not> is_nan (arrays ?st ! 0 ! 1)" by simp_all
  from inverted_bounds_zero [OF a b c] e i v
  have "feq (arrays ?st' ! 2 ! 1) (Fin 0)" by blast
  then show ?thesis using a e by (simp add: call_eq)
qed

subsection \<open>C6: the bounds themselves\<close>

text \<open>
  C6, as stated: for every instance, an element equal to \<^verbatim>\<open>self.min\<close> or to \<^verbatim>\<open>self.max\<close>
  is not masked and receives \<^verbatim>\<open>prob(x)[i] / norm\<close>. When the bounds are inverted an
  element equal to one bound is strictly outside the other: \<^verbatim>\<open>ProbDistFunc(2, 1)\<close> on
  \<^verbatim>\<open>[2.]\<close> has \<open>x[0] == self.min\<close> and \<open>x[0] > self.max\<close>, and returns \<^verbatim>\<open>[0.]\<close> where
  \<^verbatim>\<open>prob(x)[0] / norm\<close> is 1.
\<close>

theorem bounds_inverted_counterexample:
  "feq (Fin 2) (self_min (init (Fin 2) (Fin 1) False)) \<and>
   call 0 \<lparr>this = init (Fin 2) (Fin 1) False, arrays = [[Fin 2]]\<rparr> =
     Inr (2, \<lparr>this = init (Fin 2) (Fin 1) False, arrays = [[Fin 2], [Fin 0], [Fin 0]]\<rparr>) \<and>
   returned (prob 0 \<lparr>this = init (Fin 2) (Fin 1) False, arrays = [[Fin 2]]\<rparr>) = Some [Fin 1] \<and>
   fdiv (Fin 1) (self_norm (init (Fin 2) (Fin 1) False)) = Fin 1"
  by (simp add: model_defs returned_def)

text \<open>
  C6, amended: for every instance whose bounds are not inverted (\<^verbatim>\<open>self.min > self.max\<close>
  is false), whatever its class's \<^verbatim>\<open>prob\<close> returns, an element of the input equal to
  \<^verbatim>\<open>self.min\<close> or to \<^verbatim>\<open>self.max\<close> is not masked, and the result there is
  \<^verbatim>\<open>prob(x)[i]\<close> divided by the stored constant.
\<close>

theorem bounds_inclusive:
  assumes "\<not> fgt (self_min (this st)) (self_max (this st))"
    and "call_with (prob_of dens) x st = Inr (r, st')"
    and "i < length (arrays st ! x)"
    and "feq (arrays st ! x ! i) (self_min (this st)) \<or> feq (arrays st ! x ! i) (self_max (this st))"
  shows "\<not> outside (this st) (arrays st ! x ! i) \<and>
         arrays st' ! r ! i = fdiv (dens (this st) (arrays st ! x) ! i) (self_norm (this st))"
proof -
  have "\<not> flt (self_max (this st)) (self_min (this st))"
    using assms(1) by (simp add: fgt_def)
  from ordered_inside [OF this assms(4)]
  have inside: "\<not> outside (this st) (arrays st ! x ! i)"
    by (simp add: outside_def fgt_def)
  then show ?thesis using call_result_nth [OF assms(2,3)] by simp
qed

text \<open>The witness: the base class on 0..2, normalized, at the element 2.\<close>

theorem bounds_inclusive_witness:
  "\<not> fgt (Fin 0) (Fin 2) \<and>
   call 0 \<lparr>this = init (Fin 0) (Fin 2) True, arrays = [[Fin 0, Fin 2, NZero]]\<rparr> =
     Inr (2, \<lparr>this = init (Fin 0) (Fin 2) True,
              arrays = [[Fin 0, Fin 2, NZero], [Fin 1, Fin 1, Fin 1], [Fin (1/2), Fin (1/2), Fin (1/2)]]\<rparr>) \<and>
   feq (Fin 2) (Fin 2) \<and>
   \<not> outside (init (Fin 0) (Fin 2) True) (Fin 2) \<and>
   [Fin (1/2), Fin (1/2), Fin (1/2)] ! 1 = fdiv (Fin 1) (Fin 2)"
proof -
  let ?st = "\<lparr>this = init (Fin 0) (Fin 2) True, arrays = [[Fin 0, Fin 2, NZero]]\<rparr>"
  let ?st' = "\<lparr>this = init (Fin 0) (Fin 2) True,
              arrays = [[Fin 0, Fin 2, NZero], [Fin 1, Fin 1, Fin 1], [Fin (1/2), Fin (1/2), Fin (1/2)]]\<rparr>"
  have a: "\<not> fgt (self_min (this ?st)) (self_max (this ?st))" by (simp add: model_defs)
  have b: "call_with (prob_of ones) 0 ?st = Inr (2, ?st')" by (simp add: model_defs ones_def)
  have c: "1 < length (arrays ?st ! 0)" by simp
  have d: "feq (arrays ?st ! 0 ! 1) (self_min (this ?st)) \<or> feq (arrays ?st ! 0 ! 1) (self_max (this ?st))"
    by (simp add: model_defs)
  from bounds_inclusive [OF a b c d] a b show ?thesis
    by (simp add: call_eq init_attrs ones_def feq_def fsub_def)
qed

subsection \<open>C5: the stored normalization constant\<close>

text \<open>
  C5: the constructor stores \<^verbatim>\<open>self.norm\<close> once, the result of \<^verbatim>\<open>normalization()\<close> when
  \<^verbatim>\<open>normalized\<close> is true and 1 otherwise. An assignment to \<^verbatim>\<open>self.min\<close> or \<^verbatim>\<open>self.max\<close>
  leaves the stored constant as it is, and so does a call, which divides by the stored
  constant and computes none.
\<close>

theorem norm_cached:
  "self_norm (init pdf_min pdf_max normalized) =
     (if normalized then normalization \<lparr>self_min = pdf_min, self_max = pdf_max\<rparr> else Fin 1) \<and>
   self_norm (set_min v self) = self_norm self \<and>
   self_norm (set_max v self) = self_norm self \<and>
   (call_with (prob_of dens) x st = Inr (r, st') \<longrightarrow>
      self_norm (this st') = self_norm (this st) \<and>
      arrays st' ! r =
        map (\<lambda>v. fdiv v (self_norm (this st)))
          (mask_assign (dens (this st) (arrays st ! x)) (map (outside (this st)) (arrays st ! x)) (Fin 0)))"
proof -
  have "self_norm (init pdf_min pdf_max normalized) =
     (if normalized then normalization \<lparr>self_min = pdf_min, self_max = pdf_max\<rparr> else Fin 1)"
    by (simp add: init_attrs normalization_def)
  moreover have "self_norm (set_min v self) = self_norm self"
    by (simp add: set_min_def)
  moreover have "self_norm (set_max v self) = self_norm self"
    by (simp add: set_max_def)
  moreover have "self_norm (this st') = self_norm (this st) \<and>
      arrays st' ! r =
        map (\<lambda>v. fdiv v (self_norm (this st)))
          (mask_assign (dens (this st) (arrays st ! x)) (map (outside (this st)) (arrays st ! x)) (Fin 0))"
    if c: "call_with (prob_of dens) x st = Inr (r, st')"
    using call_with_prob_of_Inr(4) [OF c] call_result [OF c] by simp
  ultimately show ?thesis by blast
qed

text \<open>
  The witness: \<^verbatim>\<open>ProbDistFunc(0, 2, True)\<close> stores 2. After \<^verbatim>\<open>self.max = 4\<close> the
  constant is still 2, where \<^verbatim>\<open>normalization()\<close> would now give 4, and a call on
  \<^verbatim>\<open>[3, 5]\<close> returns \<^verbatim>\<open>[0.5, 0]\<close>: the new bound masks, the old constant divides.
\<close>

theorem norm_cached_witness:
  "self_norm (init (Fin 0) (Fin 2) True) = Fin 2 \<and>
   self_norm (set_min (Fin 1) (init (Fin 0) (Fin 2) True)) = Fin 2 \<and>
   self_norm (set_max (Fin 4) (init (Fin 0) (Fin 2) True)) = Fin 2 \<and>
   normalization (set_max (Fin 4) (init (Fin 0) (Fin 2) True)) = Fin 4 \<and>
   call 0 \<lparr>this = set_max (Fin 4) (init (Fin 0) (Fin 2) True), arrays = [[Fin 3, Fin 5]]\<rparr> =
     Inr (2, \<lparr>this = set_max (Fin 4) (init (Fin 0) (Fin 2) True),
              arrays = [[Fin 3, Fin 5], [Fin 1, Fin 0], [Fin (1/2), Fin 0]]\<rparr>) \<and>
   self_norm (this \<lparr>this = set_max (Fin 4) (init (Fin 0) (Fin 2) True),
              arrays = [[Fin 3, Fin 5], [Fin 1, Fin 0], [Fin (1/2), Fin 0]]\<rparr>) = Fin 2"
proof -
  let ?self = "init (Fin 0) (Fin 2) True"
  let ?st = "\<lparr>this = set_max (Fin 4) ?self, arrays = [[Fin 3, Fin 5]]\<rparr>"
  let ?st' = "\<lparr>this = set_max (Fin 4) ?self,
               arrays = [[Fin 3, Fin 5], [Fin 1, Fin 0], [Fin (1/2), Fin 0]]\<rparr>"
  have c: "call_with (prob_of ones) 0 ?st = Inr (2, ?st')"
    by (simp add: model_defs ones_def set_max_def)
  have n: "normalization (set_max (Fin 4) ?self) = Fin 4"
    by (simp add: model_defs set_max_def)
  from norm_cached [of "Fin 0" "Fin 2" True "Fin 1" ?self ones 0 ?st 2 ?st'] c n
    norm_cached [of "Fin 0" "Fin 2" True "Fin 4" ?self ones 0 ?st 2 ?st']
  show ?thesis
    by (simp add: call_eq normalization_def fsub_def)
qed

subsection \<open>C8: the length and the order of the output\<close>

text \<open>
  C8: on every input array, of any length, the call of the base class returns an array
  of the same length, whose element \<open>i\<close> is computed from element \<open>i\<close> of the input
  alone: 0 or 1 according to the mask, divided by the stored constant. The same holds of
  every class whose \<^verbatim>\<open>prob\<close> returns as many values as its input has, with the value
  of \<^verbatim>\<open>prob\<close> in the place of 1.
\<close>

theorem call_length_order:
  assumes "x < length (arrays st)"
  shows "(\<exists>r st'. call x st = Inr (r, st') \<and>
            length (arrays st' ! r) = length (arrays st ! x) \<and>
            (\<forall>i < length (arrays st ! x).
               arrays st' ! r ! i =
                 fdiv (if outside (this st) (arrays st ! x ! i) then Fin 0 else Fin 1)
                   (self_norm (this st)))) \<and>
         (\<forall>dens. length (dens (this st) (arrays st ! x)) = length (arrays st ! x) \<longrightarrow>
            (\<exists>r st'. call_with (prob_of dens) x st = Inr (r, st') \<and>
               length (arrays st' ! r) = length (arrays st ! x) \<and>
               (\<forall>i < length (arrays st ! x).
                  arrays st' ! r ! i =
                    fdiv (if outside (this st) (arrays st ! x ! i) then Fin 0
                          else dens (this st) (arrays st ! x) ! i)
                      (self_norm (this st)))))"
proof -
  have gen: "\<exists>r st'. call_with (prob_of dens) x st = Inr (r, st') \<and>
               length (arrays st' ! r) = length (arrays st ! x) \<and>
               (\<forall>i < length (arrays st ! x).
                  arrays st' ! r ! i =
                    fdiv (if outside (this st) (arrays st ! x ! i) then Fin 0
                          else dens (this st) (arrays st ! x) ! i)
                      (self_norm (this st)))"
    if len: "length (dens (this st) (arrays st ! x)) = length (arrays st ! x)" for dens
  proof -
    obtain r st' where c: "call_with (prob_of dens) x st = Inr (r, st')"
      using call_with_prob_of_returns [of x st dens, OF assms len] by blast
    have "length (arrays st' ! r) = length (arrays st ! x)"
      using call_result_length [OF c] len by simp
    then show ?thesis using c call_result_nth [OF c] by blast
  qed
  from gen [of ones] obtain r st'
    where c: "call_with (prob_of ones) x st = Inr (r, st')"
      and l: "length (arrays st' ! r) = length (arrays st ! x)"
      and e: "\<forall>i < length (arrays st ! x).
                arrays st' ! r ! i =
                  fdiv (if outside (this st) (arrays st ! x ! i) then Fin 0
                        else ones (this st) (arrays st ! x) ! i)
                    (self_norm (this st))"
    by (auto simp: ones_length)
  from e have "\<forall>i < length (arrays st ! x).
                arrays st' ! r ! i =
                  fdiv (if outside (this st) (arrays st ! x ! i) then Fin 0 else Fin 1)
                    (self_norm (this st))"
    by (auto simp: ones_nth)
  with c l have "\<exists>r st'. call x st = Inr (r, st') \<and>
            length (arrays st' ! r) = length (arrays st ! x) \<and>
            (\<forall>i < length (arrays st ! x).
               arrays st' ! r ! i =
                 fdiv (if outside (this st) (arrays st ! x ! i) then Fin 0 else Fin 1)
                   (self_norm (this st)))"
    unfolding call_eq by blast
  then show ?thesis using gen by blast
qed

text \<open>
  The witness: inputs of length 0, 1 and 3 to the base class, and an input of length 2
  to a class whose \<^verbatim>\<open>prob\<close> returns its input.
\<close>

theorem call_length_order_witness:
  "(\<exists>r st'. call 0 \<lparr>this = init (Fin 0) (Fin 2) True, arrays = [[], [Fin 3], [Fin 3, Fin 1, Fin 2]]\<rparr> = Inr (r, st') \<and>
      length (arrays st' ! r) = 0) \<and>
   (\<exists>r st'. call 1 \<lparr>this = init (Fin 0) (Fin 2) True, arrays = [[], [Fin 3], [Fin 3, Fin 1, Fin 2]]\<rparr> = Inr (r, st') \<and>
      length (arrays st' ! r) = 1) \<and>
   (\<exists>r st'. call 2 \<lparr>this = init (Fin 0) (Fin 2) True, arrays = [[], [Fin 3], [Fin 3, Fin 1, Fin 2]]\<rparr> = Inr (r, st') \<and>
      length (arrays st' ! r) = 3 \<and> arrays st' ! r ! 0 = Fin 0 \<and> arrays st' ! r ! 1 = Fin (1/2)) \<and>
   (\<exists>r st'. call_with (prob_of (\<lambda>self xs. xs)) 0 \<lparr>this = init (Fin 0) (Fin 2) True, arrays = [[Fin 1, Fin 3]]\<rparr> =
        Inr (r, st') \<and>
      length (arrays st' ! r) = 2)"
proof -
  let ?st = "\<lparr>this = init (Fin 0) (Fin 2) True, arrays = [[], [Fin 3], [Fin 3, Fin 1, Fin 2]]\<rparr>"
  let ?st2 = "\<lparr>this = init (Fin 0) (Fin 2) True, arrays = [[Fin 1, Fin 3]]\<rparr>"
  have a: "0 < length (arrays ?st)" and b: "1 < length (arrays ?st)" and c: "2 < length (arrays ?st)"
    and a2: "0 < length (arrays ?st2)"
    by simp_all
  have n: "self_norm (this ?st) = Fin 2" by (simp add: init_attrs fsub_def)
  have o: "outside (this ?st) (Fin 3)" "\<not> outside (this ?st) (Fin 1)"
    by (simp_all add: outside_def init_attrs flt_def fgt_def)
  have d: "fdiv (Fin 0) (Fin 2) = Fin 0" "fdiv (Fin 1) (Fin 2) = Fin (1/2)"
    by (simp_all add: fdiv_def)
  have e: "length ((\<lambda>self xs. xs) (this ?st2) (arrays ?st2 ! 0)) = length (arrays ?st2 ! 0)"
    by simp
  have "\<exists>r st'. call_with (prob_of (\<lambda>self xs. xs)) 0 ?st2 = Inr (r, st') \<and>
          length (arrays st' ! r) = 2"
    using call_length_order [OF a2, THEN conjunct2,
        THEN spec [where x = "\<lambda>(self::ProbDistFunc) (xs::fl list). xs"]] e
    by auto
  moreover have "\<exists>r st'. call 0 ?st = Inr (r, st') \<and> length (arrays st' ! r) = 0"
    using call_length_order [OF a, THEN conjunct1] by auto
  moreover have "\<exists>r st'. call 1 ?st = Inr (r, st') \<and> length (arrays st' ! r) = 1"
    using call_length_order [OF b, THEN conjunct1] by auto
  moreover have "\<exists>r st'. call 2 ?st = Inr (r, st') \<and>
      length (arrays st' ! r) = 3 \<and> arrays st' ! r ! 0 = Fin 0 \<and> arrays st' ! r ! 1 = Fin (1/2)"
    using call_length_order [OF c, THEN conjunct1] n o d
    by (auto simp: All_less_Suc2 eval_nat_numeral)
  ultimately show ?thesis by blast
qed

subsection \<open>C9: nothing is raised\<close>

text \<open>
  C9: with any bounds and either value of \<^verbatim>\<open>normalized\<close>, constructing an instance of the
  base class and calling it on any array returns an array and raises nothing. When the
  stored constant is zero, every element of the output is an infinity or NaN. The
  constructor is a function with no error value: \<^verbatim>\<open>__init__\<close> has no \<^verbatim>\<open>raise\<close> and the
  subtraction of two floats raises nothing.
\<close>

theorem call_never_raises:
  assumes "x < length (arrays st)"
  shows "\<exists>r st'. call x (st\<lparr>this := init pdf_min pdf_max normalized\<rparr>) = Inr (r, st') \<and>
           length (arrays st' ! r) = length (arrays st ! x) \<and>
           (is_zero (self_norm (init pdf_min pdf_max normalized)) \<longrightarrow>
              (\<forall>v \<in> set (arrays st' ! r). \<not> is_finite v))"
proof -
  let ?st = "st\<lparr>this := init pdf_min pdf_max normalized\<rparr>"
  have valid: "x < length (arrays ?st)" using assms by simp
  obtain r st' where c: "call_with (prob_of ones) x ?st = Inr (r, st')"
    using call_with_prob_of_returns [OF valid, of ones] by (auto simp: ones_length)
  have "\<not> is_finite v"
    if z: "is_zero (self_norm (init pdf_min pdf_max normalized))" and v: "v \<in> set (arrays st' ! r)" for v
  proof -
    from v obtain w
      where w: "w \<in> set (mask_assign (ones (this ?st) (arrays ?st ! x))
                          (map (outside (this ?st)) (arrays ?st ! x)) (Fin 0))"
        and "v = fdiv w (self_norm (this ?st))"
      unfolding call_result [OF c] by auto
    then have "v = fdiv (Fin 0) (self_norm (init pdf_min pdf_max normalized)) \<or>
               v = fdiv (Fin 1) (self_norm (init pdf_min pdf_max normalized))"
      using masked_ones_values [OF w] by auto
    then show ?thesis using zero_norm_not_finite [OF z] by auto
  qed
  then show ?thesis
    using c call_result_length [OF c] by (auto simp: call_eq ones_length)
qed

text \<open>
  The witness: \<^verbatim>\<open>ProbDistFunc(1, 1, True)\<close>, whose constant is 0, on \<^verbatim>\<open>[2, 1]\<close> returns
  \<^verbatim>\<open>[nan, inf]\<close>; \<^verbatim>\<open>ProbDistFunc(inf, nan, True)\<close> returns as well.
\<close>

theorem call_never_raises_witness:
  "(\<exists>r st'. call 0 \<lparr>this = init (Fin 1) (Fin 1) True, arrays = [[Fin 2, Fin 1]]\<rparr> = Inr (r, st') \<and>
      length (arrays st' ! r) = 2 \<and> (\<forall>v \<in> set (arrays st' ! r). \<not> is_finite v)) \<and>
   is_zero (self_norm (init (Fin 1) (Fin 1) True)) \<and>
   call 0 \<lparr>this = init (Fin 1) (Fin 1) True, arrays = [[Fin 2, Fin 1]]\<rparr> =
     Inr (2, \<lparr>this = init (Fin 1) (Fin 1) True, arrays = [[Fin 2, Fin 1], [Fin 0, Fin 1], [NaN, PInf]]\<rparr>) \<and>
   (\<exists>r st'. call 0 \<lparr>this = init PInf NaN True, arrays = [[NInf, NaN, Fin 1]]\<rparr> = Inr (r, st'))"
proof -
  let ?st = "\<lparr>this = init (Fin 7) (Fin 8) False, arrays = [[Fin 2, Fin 1]]\<rparr>"
  let ?st2 = "\<lparr>this = init (Fin 7) (Fin 8) False, arrays = [[NInf, NaN, Fin 1]]\<rparr>"
  have a: "0 < length (arrays ?st)" and a2: "0 < length (arrays ?st2)" by simp_all
  have z: "is_zero (self_norm (init (Fin 1) (Fin 1) True))"
    by (simp add: init_attrs fsub_def)
  have e: "call 0 \<lparr>this = init (Fin 1) (Fin 1) True, arrays = [[Fin 2, Fin 1]]\<rparr> =
     Inr (2, \<lparr>this = init (Fin 1) (Fin 1) True, arrays = [[Fin 2, Fin 1], [Fin 0, Fin 1], [NaN, PInf]]\<rparr>)"
    by (simp add: model_defs)
  from call_never_raises [OF a, of "Fin 1" "Fin 1" True]
    call_never_raises [OF a2, of PInf NaN True] z e
  show ?thesis by auto
qed

subsection \<open>C10: the input array and the instance after a call\<close>

text \<open>
  C10: the call of the base class writes its mask into the array that \<^verbatim>\<open>prob\<close>
  allocated, which is a new one (its address \<open>p\<close> holds no array before the call), and
  returns another new one. The array \<open>x\<close> and every other array of the state hold after
  the call what they held before, and the instance is the same.
\<close>

theorem call_leaves_input:
  assumes "x < length (arrays st)"
  shows "\<exists>p st1 r st'.
           prob x st = Inr (p, st1) \<and> call x st = Inr (r, st') \<and>
           array_at st p = None \<and> array_at st r = None \<and>
           array_at st' p =
             Some (mask_assign (replicate (length (arrays st ! x)) (Fin 1))
                     (map (outside (this st)) (arrays st ! x)) (Fin 0)) \<and>
           array_at st' x = array_at st x \<and>
           take (length (arrays st)) (arrays st') = arrays st \<and>
           this st' = this st"
  using assms
  by (simp add: call_base_result prob_def np_ones_def alloc_def array_at_def nth_append ones_def)

text \<open>The witness: the base class on 0..2, normalized, called on \<^verbatim>\<open>[1, 3]\<close>.\<close>

theorem call_leaves_input_witness:
  "call 0 \<lparr>this = init (Fin 0) (Fin 2) True, arrays = [[Fin 1, Fin 3]]\<rparr> =
     Inr (2, \<lparr>this = init (Fin 0) (Fin 2) True,
              arrays = [[Fin 1, Fin 3], [Fin 1, Fin 0], [Fin (1/2), Fin 0]]\<rparr>) \<and>
   (\<exists>p st1 r st'.
       prob 0 \<lparr>this = init (Fin 0) (Fin 2) True, arrays = [[Fin 1, Fin 3]]\<rparr> = Inr (p, st1) \<and>
       call 0 \<lparr>this = init (Fin 0) (Fin 2) True, arrays = [[Fin 1, Fin 3]]\<rparr> = Inr (r, st') \<and>
       array_at st' p = Some [Fin 1, Fin 0] \<and>
       array_at st' 0 = Some [Fin 1, Fin 3] \<and>
       this st' = init (Fin 0) (Fin 2) True)"
proof -
  let ?st = "\<lparr>this = init (Fin 0) (Fin 2) True, arrays = [[Fin 1, Fin 3]]\<rparr>"
  have a: "0 < length (arrays ?st)" by simp
  have m: "mask_assign (replicate (length (arrays ?st ! 0)) (Fin 1))
             (map (outside (this ?st)) (arrays ?st ! 0)) (Fin 0) = [Fin 1, Fin 0]"
    by (simp add: outside_def init_attrs flt_def fgt_def)
  have x0: "array_at ?st 0 = Some [Fin 1, Fin 3]" by (simp add: array_at_def)
  have e: "call 0 ?st = Inr (2, \<lparr>this = init (Fin 0) (Fin 2) True,
              arrays = [[Fin 1, Fin 3], [Fin 1, Fin 0], [Fin (1/2), Fin 0]]\<rparr>)"
    by (simp add: model_defs)
  from call_leaves_input [OF a] obtain p st1 r st'
    where "prob 0 ?st = Inr (p, st1)" and "call 0 ?st = Inr (r, st')"
      and "array_at st' p = Some [Fin 1, Fin 0]"
      and "array_at st' 0 = Some [Fin 1, Fin 3]"
      and "this st' = init (Fin 0) (Fin 2) True"
    unfolding m x0 by auto
  then show ?thesis using e by blast
qed

text \<open>
  The property rests on \<^verbatim>\<open>prob\<close> returning a new array. With a \<^verbatim>\<open>prob\<close> that returned
  \<open>x\<close> itself, the same \<^verbatim>\<open>__call__\<close> would write the mask into \<open>x\<close>.
\<close>

lemma aliasing_prob_changes_input:
  "call_with (\<lambda>x st. Inr (x, st)) 0 \<lparr>this = init (Fin 0) (Fin 2) False, arrays = [[Fin 1, Fin 3]]\<rparr> =
     Inr (1, \<lparr>this = init (Fin 0) (Fin 2) False, arrays = [[Fin 1, Fin 0], [Fin 1, Fin 0]]\<rparr>)"
  by (simp add: model_defs)

end
